theory Spec2Isabelle
  imports Main "HOL-Library.Finite_Map"
begin

section \<open>JavaScript values seen by the server\<close>

text \<open>
  Everything a client sends over the persistent connection arrives in
  \<^verbatim>\<open>Backend/server.js\<close> as an unvalidated JSON value, or as
  \<^verbatim>\<open>undefined\<close> when the argument is missing. The handlers only destructure
  it, interpolate it into template literals and test it for truthiness. Binary
  attachments, which socket.io can carry next to JSON, are not modelled.

  A number is given by the numeral JavaScript prints for it (\<^verbatim>\<open>42\<close>,
  \<^verbatim>\<open>1.5\<close>, \<^verbatim>\<open>1e+21\<close>): the handlers do no arithmetic, and of a
  number they observe only this numeral and whether it is zero, which prints as
  \<^verbatim>\<open>0\<close>. In \<open>JObj\<close> the first binding of a name is the property's value.
\<close>

datatype jsval =
    JUndefined
  | JNull
  | JBool bool
  | JNum string
  | JStr string
  | JArr "jsval list"
  | JObj "(string \<times> jsval) list"

text \<open>The test \<^verbatim>\<open>if (v)\<close>.\<close>

fun truthy :: "jsval \<Rightarrow> bool" where
  "truthy JUndefined = False"
| "truthy JNull = False"
| "truthy (JBool b) = b"
| "truthy (JNum n) = (n \<noteq> ''0'')"
| "truthy (JStr s) = (s \<noteq> [])"
| "truthy (JArr xs) = True"
| "truthy (JObj fs) = True"

text \<open>
  Reading one of the property names the handlers destructure
  (\<^verbatim>\<open>receiverId\<close>, \<^verbatim>\<open>caseId\<close>, ...): a missing property, and any
  such property of a string, a number, a boolean or an array, is \<^verbatim>\<open>undefined\<close>.
\<close>

fun field :: "jsval \<Rightarrow> string \<Rightarrow> jsval" where
  "field (JObj fs) k = (case map_of fs k of Some v \<Rightarrow> v | None \<Rightarrow> JUndefined)"
| "field v k = JUndefined"

datatype error = TypeError

text \<open>
  \<^verbatim>\<open>const { a, b } = data\<close> throws a TypeError when \<^verbatim>\<open>data\<close> is
  \<^verbatim>\<open>undefined\<close> or \<^verbatim>\<open>null\<close>, and only then.
\<close>

fun nullish :: "jsval \<Rightarrow> bool" where
  "nullish JUndefined = True"
| "nullish JNull = True"
| "nullish v = False"

text \<open>
  The conversion done by a template literal, \<^verbatim>\<open>`${v}`\<close>. An array is the
  comma-separated conversion of its elements, \<^verbatim>\<open>null\<close> elements giving the empty
  string. An object parsed from JSON converts through \<^verbatim>\<open>Object.prototype.toString\<close>
  unless it has a property \<^verbatim>\<open>toString\<close> of its own: that property is not a
  function, \<^verbatim>\<open>valueOf\<close> does not give a primitive either, and the conversion
  throws a TypeError.
\<close>

fun joined :: "(error + string) list \<Rightarrow> error + string" where
  "joined [] = Inr []"
| "joined [r] = r"
| "joined (r # rs) =
     (case r of
        Inl e \<Rightarrow> Inl e
      | Inr s \<Rightarrow> (case joined rs of Inl e \<Rightarrow> Inl e | Inr t \<Rightarrow> Inr (s @ '','' @ t)))"

fun toStr :: "jsval \<Rightarrow> error + string" where
  "toStr JUndefined = Inr ''undefined''"
| "toStr JNull = Inr ''null''"
| "toStr (JBool b) = Inr (if b then ''true'' else ''false'')"
| "toStr (JNum n) = Inr n"
| "toStr (JStr s) = Inr s"
| "toStr (JArr xs) = joined (map (\<lambda>x. if nullish x then Inr [] else toStr x) xs)"
| "toStr (JObj fs) =
     (if ''toString'' \<in> fst ` set fs then Inl TypeError else Inr ''[object Object]'')"

text \<open>Whether a template literal can convert a value.\<close>

definition printable :: "jsval \<Rightarrow> bool" where
  "printable v = (case toStr v of Inl e \<Rightarrow> False | Inr r \<Rightarrow> True)"

subsection \<open>Decimal rendering of a clock reading\<close>

text \<open>
  \<^verbatim>\<open>Date.now()\<close> is a non-negative integer number of milliseconds, far below
  the size at which JavaScript switches to exponent notation, so
  \<^verbatim>\<open>`${Date.now()}`\<close> is its plain decimal numeral.
\<close>

definition digit :: "nat \<Rightarrow> char" where
  "digit d = ''0123456789'' ! d"

function decimal :: "nat \<Rightarrow> string" where
  "decimal n = (if n < 10 then [digit n] else decimal (n div 10) @ [digit (n mod 10)])"
  by pat_completeness auto
termination
  by (relation "measure (\<lambda>n. n)") auto

declare decimal.simps [simp del]

section \<open>Connection registry and distribution groups\<close>

text \<open>
  \<open>sockets\<close> are the live connections of the socket.io server, \<open>connectedUsers\<close> is
  the \<^verbatim>\<open>Map\<close> of that name (socket id to user id) and \<open>rooms\<close> is socket.io's
  room table: for each room name the connections that joined it. The room every socket
  has under its own id is not modelled: no handler addresses it, since every target
  starts with \<^verbatim>\<open>user:\<close> or \<^verbatim>\<open>case:\<close>.
\<close>

type_synonym sid = string

record server =
  sockets :: "sid set"
  connectedUsers :: "(sid, jsval) fmap"
  rooms :: "string \<Rightarrow> sid set"

definition init :: server where
  "init = \<lparr>sockets = {}, connectedUsers = fmempty, rooms = (\<lambda>r. {})\<rparr>"

text \<open>\<^verbatim>\<open>socket.join(room)\<close> and \<^verbatim>\<open>socket.leave(room)\<close>.\<close>

definition join :: "(string \<Rightarrow> sid set) \<Rightarrow> sid \<Rightarrow> string \<Rightarrow> (string \<Rightarrow> sid set)" where
  "join rs c r = rs(r := insert c (rs r))"

definition leave :: "(string \<Rightarrow> sid set) \<Rightarrow> sid \<Rightarrow> string \<Rightarrow> (string \<Rightarrow> sid set)" where
  "leave rs c r = rs(r := rs r - {c})"

text \<open>
  The payload of \<^verbatim>\<open>chat:receive\<close>. \<open>msg_id\<close> is the field \<^verbatim>\<open>id\<close>;
  \<open>timestamp\<close> is the instant of \<^verbatim>\<open>new Date()\<close>, which the source renders
  with \<^verbatim>\<open>toISOString()\<close>.
\<close>

record chat_message =
  msg_id :: string
  senderId :: jsval
  senderName :: jsval
  message :: jsval
  timestamp :: nat
  read :: bool

datatype out_event =
    ChatReceive chat_message
  | ChatReadConfirm jsval
  | NotificationReceive jsval
  | CaseUpdated jsval

text \<open>One call \<^verbatim>\<open>io.to(room).emit(event, payload)\<close>.\<close>

type_synonym emit = "string \<times> out_event"

text \<open>
  What a connection is sent by a list of such calls, given the room table: each call
  reaches every member of its room once, and calls are independent of each other.
\<close>

definition received :: "(string \<Rightarrow> sid set) \<Rightarrow> emit list \<Rightarrow> sid \<Rightarrow> out_event list" where
  "received rs es c = map snd (filter (\<lambda>e. c \<in> rs (fst e)) es)"

text \<open>
  How a handler ends: it returns, or it throws. Either way it leaves a state of the
  server and the emits it has made up to that point.
\<close>

datatype result =
    Returned server "emit list"
  | Thrown error server "emit list"

fun state_of :: "result \<Rightarrow> server" where
  "state_of (Returned s es) = s"
| "state_of (Thrown e s es) = s"

fun emits_of :: "result \<Rightarrow> emit list" where
  "emits_of (Returned s es) = es"
| "emits_of (Thrown e s es) = es"

fun thrown :: "result \<Rightarrow> error option" where
  "thrown (Returned s es) = None"
| "thrown (Thrown e s es) = Some e"

section \<open>The handlers\<close>

text \<open>\<^verbatim>\<open>io.on('connection', ...)\<close>: the socket is live; nothing else is recorded.\<close>

definition connect :: "server \<Rightarrow> sid \<Rightarrow> server" where
  "connect s c = s\<lparr>sockets := insert c (sockets s)\<rparr>"

text \<open>
  \<^verbatim>\<open>authenticate\<close>: the entry of \<open>connectedUsers\<close> is set first; the room name
  is computed next and may throw, in which case the entry stays and no room is joined.
\<close>

definition authenticate :: "server \<Rightarrow> sid \<Rightarrow> jsval \<Rightarrow> result" where
  "authenticate s c userId =
     (let s' = s\<lparr>connectedUsers := fmupd c userId (connectedUsers s)\<rparr> in
      case toStr userId of
        Inl e \<Rightarrow> Thrown e s' []
      | Inr u \<Rightarrow> Returned (s'\<lparr>rooms := join (rooms s') c (''user:'' @ u)\<rparr>) [])"

definition join_case :: "server \<Rightarrow> sid \<Rightarrow> jsval \<Rightarrow> result" where
  "join_case s c caseId =
     (case toStr caseId of
        Inl e \<Rightarrow> Thrown e s []
      | Inr k \<Rightarrow> Returned (s\<lparr>rooms := join (rooms s) c (''case:'' @ k)\<rparr>) [])"

definition leave_case :: "server \<Rightarrow> sid \<Rightarrow> jsval \<Rightarrow> result" where
  "leave_case s c caseId =
     (case toStr caseId of
        Inl e \<Rightarrow> Thrown e s []
      | Inr k \<Rightarrow> Returned (s\<lparr>rooms := leave (rooms s) c (''case:'' @ k)\<rparr>) [])"

text \<open>
  \<^verbatim>\<open>chat:send\<close>. \<open>now\<close> is the reading of \<^verbatim>\<open>Date.now()\<close>, \<open>now'\<close>
  that of \<^verbatim>\<open>new Date()\<close> two lines later. The room name is computed before the
  emit; the log line after the emit interpolates \<^verbatim>\<open>senderId\<close> and
  \<^verbatim>\<open>receiverId\<close>.
\<close>

definition chat_send :: "server \<Rightarrow> nat \<Rightarrow> nat \<Rightarrow> jsval \<Rightarrow> result" where
  "chat_send s now now' data =
     (if nullish data then Thrown TypeError s []
      else case toStr (field data ''receiverId'') of
        Inl e \<Rightarrow> Thrown e s []
      | Inr r \<Rightarrow>
          (let es = [(''user:'' @ r,
                      ChatReceive \<lparr>msg_id = ''msg-'' @ decimal now,
                                   senderId = field data ''senderId'',
                                   senderName = field data ''senderName'',
                                   message = field data ''message'',
                                   timestamp = now',
                                   read = False\<rparr>)]
           in case toStr (field data ''senderId'') of
                Inl e \<Rightarrow> Thrown e s es
              | Inr n \<Rightarrow> Returned s es))"

definition chat_read :: "server \<Rightarrow> jsval \<Rightarrow> result" where
  "chat_read s data =
     (if nullish data then Thrown TypeError s []
      else case toStr (field data ''senderId'') of
        Inl e \<Rightarrow> Thrown e s []
      | Inr r \<Rightarrow>
          Returned s [(''user:'' @ r,
                       ChatReadConfirm (JObj [(''userId'', field data ''receiverId'')]))])"

definition notification_send :: "server \<Rightarrow> jsval \<Rightarrow> result" where
  "notification_send s data =
     (if nullish data then Thrown TypeError s []
      else case toStr (field data ''recipientId'') of
        Inl e \<Rightarrow> Thrown e s []
      | Inr r \<Rightarrow>
          Returned s [(''user:'' @ r, NotificationReceive (field data ''notification''))])"

text \<open>
  \<^verbatim>\<open>case:update\<close>: the emit to the case room is made before the assignee is
  looked at, so a throw on the assignee's room name comes after the first emit.
\<close>

definition case_update :: "server \<Rightarrow> jsval \<Rightarrow> result" where
  "case_update s data =
     (if nullish data then Thrown TypeError s []
      else case toStr (field data ''caseId'') of
        Inl e \<Rightarrow> Thrown e s []
      | Inr k \<Rightarrow>
          (let first = (''case:'' @ k, CaseUpdated (field data ''update''))
           in if truthy (field data ''assignedUserId'')
              then (case toStr (field data ''assignedUserId'') of
                      Inl e \<Rightarrow> Thrown e s [first]
                    | Inr u \<Rightarrow>
                        Returned s [first,
                                    (''user:'' @ u, CaseUpdated (field data ''update''))])
              else Returned s [first]))"

text \<open>
  On a disconnect socket.io first takes the socket out of every room and out of its
  table of live sockets, then runs the \<^verbatim>\<open>disconnect\<close> handler. The handler
  deletes the socket's entry of \<open>connectedUsers\<close> when the stored user id is truthy,
  and then interpolates that id into a log line.
\<close>

definition disconnect :: "server \<Rightarrow> sid \<Rightarrow> result" where
  "disconnect s c =
     (let s' = s\<lparr>sockets := sockets s - {c}, rooms := (\<lambda>r. rooms s r - {c})\<rparr>;
          userId = (case fmlookup (connectedUsers s) c of Some u \<Rightarrow> u | None \<Rightarrow> JUndefined)
      in if truthy userId
         then (let s'' = s'\<lparr>connectedUsers := fmdrop c (connectedUsers s)\<rparr>
               in case toStr userId of
                    Inl e \<Rightarrow> Thrown e s'' []
                  | Inr u \<Rightarrow> Returned s'' [])
         else Returned s' [])"

text \<open>The \<^verbatim>\<open>sockets\<close> field of the \<^verbatim>\<open>/health\<close> answer: \<^verbatim>\<open>connectedUsers.size\<close>.\<close>

definition health_sockets :: "server \<Rightarrow> nat" where
  "health_sockets s = fcard (fmdom (connectedUsers s))"

subsection \<open>The server as a transition system\<close>

datatype event =
    Connect sid
  | Authenticate sid jsval
  | JoinCase sid jsval
  | LeaveCase sid jsval
  | ChatSend sid nat nat jsval
  | ChatRead sid jsval
  | NotificationSend sid jsval
  | CaseUpdate sid jsval
  | Disconnect sid

fun source :: "event \<Rightarrow> sid" where
  "source (Connect c) = c"
| "source (Authenticate c u) = c"
| "source (JoinCase c k) = c"
| "source (LeaveCase c k) = c"
| "source (ChatSend c t t' d) = c"
| "source (ChatRead c d) = c"
| "source (NotificationSend c d) = c"
| "source (CaseUpdate c d) = c"
| "source (Disconnect c) = c"

fun handle :: "server \<Rightarrow> event \<Rightarrow> result" where
  "handle s (Connect c) = Returned (connect s c) []"
| "handle s (Authenticate c u) = authenticate s c u"
| "handle s (JoinCase c k) = join_case s c k"
| "handle s (LeaveCase c k) = leave_case s c k"
| "handle s (ChatSend c t t' d) = chat_send s t t' d"
| "handle s (ChatRead c d) = chat_read s d"
| "handle s (NotificationSend c d) = notification_send s d"
| "handle s (CaseUpdate c d) = case_update s d"
| "handle s (Disconnect c) = disconnect s c"

text \<open>
  The handlers are installed on a socket when it connects, so an event of a socket that
  is not live runs no handler.
\<close>

definition step :: "server \<Rightarrow> event \<Rightarrow> result" where
  "step s ev =
     (case ev of
        Connect c \<Rightarrow> handle s ev
      | _ \<Rightarrow> if source ev \<in> sockets s then handle s ev else Returned s [])"

text \<open>
  A run of the server from a state: the state after the events, and what connection
  \<open>c\<close> was sent on the way. Nothing in \<^verbatim>\<open>server.js\<close> catches what a handler
  throws, so an exception ends the run.
\<close>

fun run :: "server \<Rightarrow> event list \<Rightarrow> sid \<Rightarrow> error + server \<times> out_event list" where
  "run s [] c = Inr (s, [])"
| "run s (ev # evs) c =
     (case step s ev of
        Thrown e s' es \<Rightarrow> Inl e
      | Returned s' es \<Rightarrow>
          (case run s' evs c of
             Inl e \<Rightarrow> Inl e
           | Inr (s'', log) \<Rightarrow> Inr (s'', received (rooms s) es c @ log)))"

section \<open>Response cache\<close>

text \<open>
  The \<^verbatim>\<open>Map\<close> \<open>cache\<close>: for each key the stored \<^verbatim>\<open>{ data, timestamp }\<close>,
  as a pair.
\<close>

type_synonym cache = "string \<rightharpoonup> jsval \<times> nat"

definition CACHE_TTL :: int where
  "CACHE_TTL = 30 * 1000"

text \<open>Of a request, \<^verbatim>\<open>req.method\<close> and \<^verbatim>\<open>req.originalUrl\<close>.\<close>

record request =
  req_method :: string
  originalUrl :: string

text \<open>
  The three ways \<^verbatim>\<open>cacheMiddleware\<close> ends: \<^verbatim>\<open>next()\<close> with the response
  untouched, \<^verbatim>\<open>res.json(cached.data)\<close>, or \<^verbatim>\<open>next()\<close> after replacing
  \<^verbatim>\<open>res.json\<close> by a function that stores under the given key.
\<close>

datatype middleware_result = Untouched | Hit jsval | Miss string

definition cacheMiddleware :: "cache \<Rightarrow> nat \<Rightarrow> request \<Rightarrow> middleware_result" where
  "cacheMiddleware cache now req =
     (if req_method req \<noteq> ''GET'' then Untouched
      else let key = originalUrl req in
        (case cache key of
           Some (d, ts) \<Rightarrow> if int now - int ts < CACHE_TTL then Hit d else Miss key
         | None \<Rightarrow> Miss key))"

text \<open>The replaced \<^verbatim>\<open>res.json\<close>, called at clock reading \<open>t\<close>.\<close>

definition caching_json :: "cache \<Rightarrow> string \<Rightarrow> nat \<Rightarrow> jsval \<Rightarrow> cache" where
  "caching_json cache key t d = cache(key \<mapsto> (d, t))"

text \<open>
  What answers a request after the middleware. The router and the error handler are
  imported modules, so they are a parameter \<open>routes\<close>: \<open>Some (Json status body)\<close> when
  they answer through \<^verbatim>\<open>res.status(status).json(body)\<close>, \<open>Some Other\<close> when they
  answer without \<^verbatim>\<open>res.json\<close>, \<open>None\<close> when no route matches and the request
  falls through to the 404 handler of \<^verbatim>\<open>server.js\<close>.
\<close>

datatype reply = Json nat jsval | Other

definition not_found :: jsval where
  "not_found = JObj [(''success'', JBool False),
                     (''error'', JObj [(''code'', JStr ''NOT_FOUND''),
                                       (''message'', JStr ''Route not found'')])]"

definition downstream :: "(request \<Rightarrow> reply option) \<Rightarrow> request \<Rightarrow> reply" where
  "downstream routes req = (case routes req of Some r \<Rightarrow> r | None \<Rightarrow> Json 404 not_found)"

text \<open>
  A request under \<^verbatim>\<open>/api\<close>: \<^verbatim>\<open>app.use('/api', cacheMiddleware, routes)\<close>
  followed by the 404 handler. \<open>now\<close> is the clock when the middleware runs, \<open>t\<close> the
  clock when the handler calls \<^verbatim>\<open>res.json\<close>. The result says whether the
  answer came from the cache or from running the handlers, and gives the cache afterwards.
\<close>

datatype outcome = FromCache jsval | FromHandler reply

definition api_request ::
  "(request \<Rightarrow> reply option) \<Rightarrow> cache \<Rightarrow> nat \<Rightarrow> nat \<Rightarrow> request \<Rightarrow> outcome \<times> cache" where
  "api_request routes cache now t req =
     (case cacheMiddleware cache now req of
        Untouched \<Rightarrow> (FromHandler (downstream routes req), cache)
      | Hit d \<Rightarrow> (FromCache d, cache)
      | Miss key \<Rightarrow>
          (case downstream routes req of
             Json st d \<Rightarrow> (FromHandler (Json st d), caching_json cache key t d)
           | Other \<Rightarrow> (FromHandler Other, cache)))"


text \<open>
  Whether Express routes a request into \<^verbatim>\<open>app.use('/api', ...)\<close>: the path of the
  URL, up to the query string, is \<^verbatim>\<open>/api\<close> in any letter case, and ends there or
  goes on with a slash.
\<close>

fun api_path :: "string \<Rightarrow> bool" where
  "api_path (c1 # c2 # c3 # c4 # rest) =
     (c1 = CHR ''/'' \<and> (c2 = CHR ''a'' \<or> c2 = CHR ''A'') \<and> (c3 = CHR ''p'' \<or> c3 = CHR ''P'')
      \<and> (c4 = CHR ''i'' \<or> c4 = CHR ''I'')
      \<and> (case rest of [] \<Rightarrow> True | c # cs \<Rightarrow> c = CHR ''/''))"
| "api_path p = False"

definition under_api :: "string \<Rightarrow> bool" where
  "under_api url = api_path (takeWhile (\<lambda>c. c \<noteq> CHR ''?'') url)"

text \<open>
  A request to the server. Only a request under \<^verbatim>\<open>/api\<close> meets
  \<^verbatim>\<open>cacheMiddleware\<close>; any other is answered by a handler mounted elsewhere
  (\<^verbatim>\<open>/health\<close>, \<^verbatim>\<open>/\<close> or the 404 handler) with the response object as
  Express made it, and \<open>elsewhere\<close> stands for that answer. The middleware mounted in
  front (rate limiters, which are imported modules, and the body parsers) can end a
  request before it gets here: this is a request they pass on.
\<close>

definition app_request ::
  "(request \<Rightarrow> reply option) \<Rightarrow> (request \<Rightarrow> reply) \<Rightarrow> cache \<Rightarrow> nat \<Rightarrow> nat \<Rightarrow> request
     \<Rightarrow> outcome \<times> cache" where
  "app_request routes elsewhere cache now t req =
     (if under_api (originalUrl req) then api_request routes cache now t req
      else (FromHandler (elsewhere req), cache))"

section \<open>Example data\<close>

text \<open>
  Identity \<open>A\<close> on one connection, identity \<open>B\<close> on two (two devices); nobody has
  joined a case room.
\<close>

definition two_devices :: server where
  "two_devices =
     \<lparr>sockets = {''a1'', ''b1'', ''b2''},
      connectedUsers =
        fmupd ''b2'' (JStr ''B'') (fmupd ''b1'' (JStr ''B'') (fmupd ''a1'' (JStr ''A'') fmempty)),
      rooms = join (join (join (\<lambda>r. {}) ''a1'' ''user:A'') ''b1'' ''user:B'') ''b2'' ''user:B''\<rparr>"

text \<open>
  The same, with \<open>a1\<close> and \<open>b1\<close> viewing case 42; \<open>b2\<close>, the other device of
  \<open>B\<close>, is not viewing it.
\<close>

definition case_viewers :: server where
  "case_viewers =
     two_devices\<lparr>rooms := join (join (rooms two_devices) ''a1'' ''case:42'') ''b1'' ''case:42''\<rparr>"

text \<open>One live connection that has not authenticated, before and after it joins case 42.\<close>

definition newcomer :: server where
  "newcomer = \<lparr>sockets = {''c1''}, connectedUsers = fmempty, rooms = (\<lambda>r. {})\<rparr>"

definition unauthenticated_viewer :: server where
  "unauthenticated_viewer = newcomer\<lparr>rooms := join (\<lambda>r. {}) ''c1'' ''case:42''\<rparr>"

text \<open>That connection after authenticating as alice and then as bob, and as bob only.\<close>

definition alice_then_bob :: server where
  "alice_then_bob =
     \<lparr>sockets = {''c1''},
      connectedUsers = fmupd ''c1'' (JStr ''bob'') fmempty,
      rooms = join (join (\<lambda>r. {}) ''c1'' ''user:alice'') ''c1'' ''user:bob''\<rparr>"

definition bob_only :: server where
  "bob_only =
     \<lparr>sockets = {''c1''},
      connectedUsers = fmupd ''c1'' (JStr ''bob'') fmempty,
      rooms = join (\<lambda>r. {}) ''c1'' ''user:bob''\<rparr>"

text \<open>
  That connection after authenticating with the empty string, and the server after it
  has disconnected.
\<close>

definition empty_login :: server where
  "empty_login =
     \<lparr>sockets = {''c1''},
      connectedUsers = fmupd ''c1'' (JStr '''') fmempty,
      rooms = join (\<lambda>r. {}) ''c1'' ''user:''\<rparr>"

definition empty_logout :: server where
  "empty_logout =
     \<lparr>sockets = {}, connectedUsers = fmupd ''c1'' (JStr '''') fmempty, rooms = (\<lambda>r. {})\<rparr>"

text \<open>An id that no template literal can convert: an object with a property \<^verbatim>\<open>toString\<close>.\<close>

definition unprintable :: jsval where
  "unprintable = JObj [(''toString'', JStr ''x'')]"

definition chat_to_B :: "string \<Rightarrow> jsval" where
  "chat_to_B body = JObj [(''receiverId'', JStr ''B''), (''senderId'', JStr ''A''),
                          (''senderName'', JStr ''Ann''), (''message'', JStr body)]"

definition chat_to_unprintable :: jsval where
  "chat_to_unprintable = JObj [(''receiverId'', unprintable), (''senderId'', JStr ''A''),
                               (''senderName'', JStr ''Ann''), (''message'', JStr ''hi'')]"

definition chat_from_unprintable :: jsval where
  "chat_from_unprintable = JObj [(''receiverId'', JStr ''nobody''), (''senderId'', unprintable),
                                 (''senderName'', JStr ''Ann''), (''message'', JStr ''hi'')]"

definition status_closed :: jsval where
  "status_closed = JObj [(''status'', JStr ''closed'')]"

definition update_assigned :: jsval where
  "update_assigned = JObj [(''caseId'', JStr ''42''), (''update'', status_closed),
                           (''assignedUserId'', JStr ''B'')]"

definition update_unassigned :: jsval where
  "update_unassigned = JObj [(''caseId'', JStr ''42''), (''update'', status_closed)]"

definition update_assigned_unprintable :: jsval where
  "update_assigned_unprintable = JObj [(''caseId'', JStr ''42''), (''update'', status_closed),
                                       (''assignedUserId'', unprintable)]"

definition note_for_alice :: jsval where
  "note_for_alice = JObj [(''recipientId'', JStr ''alice''),
                          (''notification'', JStr ''for alice'')]"

definition cases_list :: jsval where
  "cases_list = JObj [(''success'', JBool True), (''data'', JStr ''case list'')]"

definition get_cases :: request where
  "get_cases = \<lparr>req_method = ''GET'', originalUrl = ''/api/cases?status=open''\<rparr>"

definition post_cases :: request where
  "post_cases = \<lparr>req_method = ''POST'', originalUrl = ''/api/cases?status=open''\<rparr>"

definition get_missing :: request where
  "get_missing = \<lparr>req_method = ''GET'', originalUrl = ''/api/nothing''\<rparr>"

definition get_health :: request where
  "get_health = \<lparr>req_method = ''GET'', originalUrl = ''/health''\<rparr>"

definition one_entry :: cache where
  "one_entry = [''/api/cases?status=open'' \<mapsto> (cases_list, 1000)]"

text \<open>A router that answers every request anew, and one in which no route matches.\<close>

definition fresh_routes :: "request \<Rightarrow> reply option" where
  "fresh_routes req = Some (Json 200 (JStr ''recomputed''))"

definition no_routes :: "request \<Rightarrow> reply option" where
  "no_routes req = None"

text \<open>Handlers outside \<^verbatim>\<open>/api\<close> that answer with a JSON body of status 200.\<close>

definition plain_elsewhere :: "request \<Rightarrow> reply" where
  "plain_elsewhere req = Json 200 (JObj [(''status'', JStr ''ok'')])"


section \<open>Facts about the example data and the decimal rendering\<close>

lemma two_devices_sockets: "sockets two_devices = {''a1'', ''b1'', ''b2''}"
  by (simp add: two_devices_def)

lemma two_devices_rooms:
  "rooms two_devices =
     (\<lambda>r. if r = ''user:B'' then {''b1'', ''b2''} else if r = ''user:A'' then {''a1''} else {})"
  by (auto simp add: two_devices_def join_def fun_eq_iff)

lemma two_devices_reachable:
  "run init [Connect ''a1'', Connect ''b1'', Connect ''b2'', Authenticate ''a1'' (JStr ''A''),
             Authenticate ''b1'' (JStr ''B''), Authenticate ''b2'' (JStr ''B'')] c
     = Inr (two_devices, [])"
  by (auto simp add: two_devices_def step_def connect_def authenticate_def init_def
        received_def)

lemma case_viewers_sockets: "sockets case_viewers = {''a1'', ''b1'', ''b2''}"
  by (simp add: case_viewers_def two_devices_sockets)

lemma case_viewers_rooms:
  "rooms case_viewers =
     (\<lambda>r. if r = ''case:42'' then {''a1'', ''b1''}
          else if r = ''user:B'' then {''b1'', ''b2''}
          else if r = ''user:A'' then {''a1''} else {})"
  by (auto simp add: case_viewers_def join_def two_devices_rooms fun_eq_iff)

lemma case_viewers_reachable:
  "run two_devices [JoinCase ''a1'' (JStr ''42''), JoinCase ''b1'' (JStr ''42'')] c
     = Inr (case_viewers, [])"
  by (simp add: case_viewers_def step_def join_case_def two_devices_sockets received_def)

lemma unprintable_throws: "toStr unprintable = Inl TypeError"
  by (simp add: unprintable_def)

lemma decimal_numeral:
  "decimal (numeral k) =
     (if numeral k < (10::nat) then [digit (numeral k)]
      else decimal (numeral k div 10) @ [digit (numeral k mod 10)])"
  by (rule decimal.simps)

lemma decimal_example: "decimal 1700000000000 = ''1700000000000''"
  by (simp add: decimal_numeral decimal.simps [of "Suc 0"] digit_def)

lemma digit_inj: "a < 10 \<Longrightarrow> b < 10 \<Longrightarrow> digit a = digit b \<Longrightarrow> a = b"
  using nth_eq_iff_index_eq [of "''0123456789''" a b] by (simp add: digit_def)

lemma decimal_nonempty: "decimal n \<noteq> []"
  by (subst decimal.simps) simp

text \<open>Different clock readings have different numerals.\<close>

lemma decimal_inj: "decimal a = decimal b \<Longrightarrow> a = b"
proof (induction a arbitrary: b rule: decimal.induct)
  case (1 a)
  show ?case
  proof (cases "a < 10")
    case asmall: True
    show ?thesis
    proof (cases "b < 10")
      case True
      with asmall "1.prems" show ?thesis
        by (simp add: decimal.simps [of a] decimal.simps [of b] digit_inj)
    next
      case False
      with asmall "1.prems" show ?thesis
        using decimal_nonempty [of "b div 10"]
        by (simp add: decimal.simps [of a] decimal.simps [of b])
    qed
  next
    case abig: False
    show ?thesis
    proof (cases "b < 10")
      case True
      with abig "1.prems" show ?thesis
        using decimal_nonempty [of "a div 10"]
        by (simp add: decimal.simps [of a] decimal.simps [of b])
    next
      case False
      with abig "1.prems" have front: "decimal (a div 10) = decimal (b div 10)"
        and last_digit: "digit (a mod 10) = digit (b mod 10)"
        by (simp_all add: decimal.simps [of a] decimal.simps [of b])
      from "1.IH" [OF abig front] have q: "a div 10 = b div 10" .
      from last_digit have r: "a mod 10 = b mod 10"
        by (simp add: digit_inj)
      from q r show ?thesis
        by (metis div_mult_mod_eq)
    qed
  qed
qed

section \<open>Chat messages\<close>

text \<open>
  Claim C1, as the code has it. A \<^verbatim>\<open>chat:send\<close> whose payload can be
  destructured and whose \<^verbatim>\<open>receiverId\<close> converts to a string makes exactly one
  emit, to the identity group of the receiver, and changes no server state. The message
  carries the id minted from the server's clock, the server's current time and
  \<open>read = False\<close>, next to the sender's fields as sent. Every connection in the
  receiver's group is sent that one message exactly once, so all of them see the same id,
  and a connection outside the receiver's group (the sender's own group included) is sent
  nothing. After the emit the handler returns, unless the log line cannot convert
  \<^verbatim>\<open>senderId\<close>.
\<close>

theorem chat_send_routing:
  assumes "src \<in> sockets s" and "\<not> nullish data"
    and "toStr (field data ''receiverId'') = Inr r"
  shows "let m = \<lparr>msg_id = ''msg-'' @ decimal now,
                  senderId = field data ''senderId'',
                  senderName = field data ''senderName'',
                  message = field data ''message'',
                  timestamp = now',
                  read = False\<rparr>;
             target = ''user:'' @ r;
             res = step s (ChatSend src now now' data)
         in emits_of res = [(target, ChatReceive m)]
            \<and> state_of res = s
            \<and> thrown res
                = (case toStr (field data ''senderId'') of Inl e \<Rightarrow> Some e | Inr n \<Rightarrow> None)
            \<and> (\<forall>c. received (rooms s) [(target, ChatReceive m)] c
                     = (if c \<in> rooms s target then [ChatReceive m] else []))"
  using assms
  by (simp add: step_def chat_send_def received_def Let_def split: sum.splits)

theorem chat_send_routing_witness:
  "''a1'' \<in> sockets two_devices
   \<and> \<not> nullish (chat_to_B ''hi'')
   \<and> toStr (field (chat_to_B ''hi'') ''receiverId'') = Inr ''B''
   \<and> (let m = \<lparr>msg_id = ''msg-1700000000000'', senderId = JStr ''A'',
                 senderName = JStr ''Ann'', message = JStr ''hi'',
                 timestamp = 1700000000001, read = False\<rparr>
      in step two_devices (ChatSend ''a1'' 1700000000000 1700000000001 (chat_to_B ''hi''))
           = Returned two_devices [(''user:B'', ChatReceive m)]
         \<and> received (rooms two_devices) [(''user:B'', ChatReceive m)] ''b1'' = [ChatReceive m]
         \<and> received (rooms two_devices) [(''user:B'', ChatReceive m)] ''b2'' = [ChatReceive m]
         \<and> received (rooms two_devices) [(''user:B'', ChatReceive m)] ''a1'' = [])"
  using chat_send_routing [of "''a1''" two_devices "chat_to_B ''hi''" "''B''"
      1700000000000 1700000000001]
  by (simp add: two_devices_sockets two_devices_rooms decimal_example chat_to_B_def Let_def
        step_def chat_send_def)

text \<open>
  A \<^verbatim>\<open>chat:send\<close> that names its receiver by an object with a property
  \<^verbatim>\<open>toString\<close>: the handler throws on the room name and nothing is emitted.
\<close>

theorem unprintable_receiver_counterexample:
  "\<not> nullish chat_to_unprintable
   \<and> field chat_to_unprintable ''receiverId'' = unprintable
   \<and> step two_devices (ChatSend ''a1'' 1700000000000 1700000000001 chat_to_unprintable)
       = Thrown TypeError two_devices []"
  by (simp add: step_def chat_send_def chat_to_unprintable_def unprintable_def
        two_devices_sockets)

text \<open>
  Two messages have the same id exactly when \<^verbatim>\<open>Date.now()\<close> gave the same
  reading for both.
\<close>

lemma minted_id_eq_iff: "''msg-'' @ decimal t1 = ''msg-'' @ decimal t2 \<longleftrightarrow> t1 = t2"
  using decimal_inj by auto

text \<open>
  Claim C7. The ids of distinct chat messages are meant to be distinct, but the id is
  only the millisecond of the server's clock: two \<^verbatim>\<open>chat:send\<close> events
  handled within the same millisecond give two different messages under one id. Here
  \<open>b1\<close> is sent ``first'' and ``second'', both as \<^verbatim>\<open>msg-1700000000000\<close>.
\<close>

theorem same_millisecond_same_id:
  "run two_devices
       [ChatSend ''a1'' 1700000000000 1700000000000 (chat_to_B ''first''),
        ChatSend ''a1'' 1700000000000 1700000000000 (chat_to_B ''second'')] ''b1''
     = Inr (two_devices,
            [ChatReceive \<lparr>msg_id = ''msg-1700000000000'', senderId = JStr ''A'',
                           senderName = JStr ''Ann'', message = JStr ''first'',
                           timestamp = 1700000000000, read = False\<rparr>,
             ChatReceive \<lparr>msg_id = ''msg-1700000000000'', senderId = JStr ''A'',
                           senderName = JStr ''Ann'', message = JStr ''second'',
                           timestamp = 1700000000000, read = False\<rparr>])"
  by (simp add: step_def chat_send_def received_def two_devices_sockets
        two_devices_rooms decimal_example chat_to_B_def)

section \<open>Case updates\<close>

text \<open>
  Claim C2, as the code has it. A \<^verbatim>\<open>case:update\<close> whose payload can be
  destructured and whose \<^verbatim>\<open>caseId\<close> converts to a string is emitted to that
  case's resource group, and no server state changes. It is emitted a second time, to
  the identity group of the assignee, if and only if the payload supplies an assignee,
  which the source tests as \<^verbatim>\<open>if (assignedUserId)\<close>, and that assignee converts
  to a string; a connection of the assignee that is not viewing the case is then still
  sent the update. When a supplied assignee does not convert, the handler throws after
  the first emit.
\<close>

theorem case_update_routing:
  assumes "src \<in> sockets s" and "\<not> nullish data"
    and "toStr (field data ''caseId'') = Inr k"
  shows "let assignee = field data ''assignedUserId'';
             upd = CaseUpdated (field data ''update'');
             first = (''case:'' @ k, upd);
             res = step s (CaseUpdate src data)
         in state_of res = s
            \<and> (\<not> truthy assignee \<longrightarrow> res = Returned s [first])
            \<and> (\<forall>u. truthy assignee \<and> toStr assignee = Inr u
                  \<longrightarrow> res = Returned s [first, (''user:'' @ u, upd)]
                      \<and> (\<forall>c. received (rooms s) (emits_of res) c
                               = (if c \<in> rooms s (''case:'' @ k) then [upd] else [])
                                 @ (if c \<in> rooms s (''user:'' @ u) then [upd] else [])))
            \<and> (\<forall>e. truthy assignee \<and> toStr assignee = Inl e \<longrightarrow> res = Thrown e s [first])
            \<and> ((\<exists>u. (''user:'' @ u, upd) \<in> set (emits_of res))
                 \<longleftrightarrow> truthy assignee \<and> (\<exists>u. toStr assignee = Inr u))
            \<and> first \<in> set (emits_of res)
            \<and> (\<forall>c. c \<in> rooms s (''case:'' @ k) \<longrightarrow> received (rooms s) [first] c = [upd])"
  using assms
  by (auto simp add: step_def case_update_def received_def Let_def split: sum.splits)

theorem case_update_routing_witness:
  "''a1'' \<in> sockets case_viewers
   \<and> \<not> nullish update_assigned \<and> \<not> nullish update_unassigned
   \<and> toStr (field update_assigned ''caseId'') = Inr ''42''
   \<and> toStr (field update_unassigned ''caseId'') = Inr ''42''
   \<and> truthy (field update_assigned ''assignedUserId'')
   \<and> toStr (field update_assigned ''assignedUserId'') = Inr ''B''
   \<and> step case_viewers (CaseUpdate ''a1'' update_assigned)
       = Returned case_viewers [(''case:42'', CaseUpdated status_closed),
                                (''user:B'', CaseUpdated status_closed)]
   \<and> received (rooms case_viewers)
        [(''case:42'', CaseUpdated status_closed), (''user:B'', CaseUpdated status_closed)] ''a1''
       = [CaseUpdated status_closed]
   \<and> received (rooms case_viewers)
        [(''case:42'', CaseUpdated status_closed), (''user:B'', CaseUpdated status_closed)] ''b2''
       = [CaseUpdated status_closed]
   \<and> \<not> truthy (field update_unassigned ''assignedUserId'')
   \<and> step case_viewers (CaseUpdate ''a1'' update_unassigned)
       = Returned case_viewers [(''case:42'', CaseUpdated status_closed)]
   \<and> received (rooms case_viewers) [(''case:42'', CaseUpdated status_closed)] ''b2'' = []"
  using case_update_routing [of "''a1''" case_viewers update_assigned "''42''"]
    case_update_routing [of "''a1''" case_viewers update_unassigned "''42''"]
  by (simp add: case_viewers_sockets case_viewers_rooms update_assigned_def
        update_unassigned_def Let_def step_def case_update_def received_def)

text \<open>
  A \<^verbatim>\<open>case:update\<close> that supplies as assignee an object with a property
  \<^verbatim>\<open>toString\<close>: the case room is served, then the handler throws, and there is
  no second emit.
\<close>

theorem unprintable_assignee_counterexample:
  "\<not> nullish update_assigned_unprintable
   \<and> field update_assigned_unprintable ''assignedUserId'' = unprintable
   \<and> truthy unprintable
   \<and> step case_viewers (CaseUpdate ''a1'' update_assigned_unprintable)
       = Thrown TypeError case_viewers [(''case:42'', CaseUpdated status_closed)]"
  by (simp add: step_def case_update_def update_assigned_unprintable_def unprintable_def
        case_viewers_sockets)

text \<open>
  Claim C9. When a \<^verbatim>\<open>case:update\<close> supplies an assignee, a connection that is
  in the case's resource group and also in the assignee's identity group is sent the
  update twice: the two emits are separate calls and nothing merges them. The two groups
  are the rooms named after the strings to which \<^verbatim>\<open>caseId\<close> and
  \<^verbatim>\<open>assignedUserId\<close> convert.
\<close>

theorem case_update_twice:
  assumes "src \<in> sockets s" and "\<not> nullish data"
    and "truthy (field data ''assignedUserId'')"
    and "toStr (field data ''caseId'') = Inr k"
    and "toStr (field data ''assignedUserId'') = Inr u"
    and "c \<in> rooms s (''case:'' @ k)"
    and "c \<in> rooms s (''user:'' @ u)"
  shows "\<exists>es. step s (CaseUpdate src data) = Returned s es
            \<and> received (rooms s) es c
                = [CaseUpdated (field data ''update''), CaseUpdated (field data ''update'')]"
  using assms by (simp add: step_def case_update_def received_def)

theorem case_update_twice_witness:
  "''a1'' \<in> sockets case_viewers \<and> \<not> nullish update_assigned
   \<and> truthy (field update_assigned ''assignedUserId'')
   \<and> toStr (field update_assigned ''caseId'') = Inr ''42''
   \<and> toStr (field update_assigned ''assignedUserId'') = Inr ''B''
   \<and> ''b1'' \<in> rooms case_viewers ''case:42''
   \<and> ''b1'' \<in> rooms case_viewers ''user:B''
   \<and> (\<exists>es. step case_viewers (CaseUpdate ''a1'' update_assigned) = Returned case_viewers es
           \<and> received (rooms case_viewers) es ''b1''
               = [CaseUpdated status_closed, CaseUpdated status_closed])"
  using case_update_twice [of "''a1''" case_viewers update_assigned "''42''" "''B''" "''b1''"]
  by (simp add: case_viewers_sockets case_viewers_rooms update_assigned_def)


text \<open>
  Claim C8, as the code has it. Publishing towards a group that has no member sends
  nothing to any connection through that group and leaves the registry and the groups
  as they were; when every group the event is published to is empty, no connection is
  sent anything at all. This holds for each of the four publishing events whose payload
  can be destructured. No error is raised when the ids in the payload convert to
  strings; an id that does not convert makes the handler throw.
\<close>

theorem empty_group_silent_drop:
  assumes "src \<in> sockets s" and "\<not> nullish data"
    and "ev = ChatSend src now now' data \<or> ev = ChatRead src data
         \<or> ev = NotificationSend src data \<or> ev = CaseUpdate src data"
  shows "let res = step s ev
         in state_of res = s
            \<and> (\<forall>e \<in> set (emits_of res).
                  rooms s (fst e) = {} \<longrightarrow> (\<forall>c. received (rooms s) [e] c = []))
            \<and> ((\<forall>e \<in> set (emits_of res). rooms s (fst e) = {})
                  \<longrightarrow> (\<forall>c. received (rooms s) (emits_of res) c = []))
            \<and> ((\<forall>k \<in> {''receiverId'', ''senderId'', ''recipientId'', ''caseId'',
                        ''assignedUserId''}. printable (field data k))
                  \<longrightarrow> thrown res = None \<and> emits_of res \<noteq> [])"
  using assms
  by (auto simp add: step_def chat_send_def chat_read_def notification_send_def
        case_update_def received_def printable_def Let_def split: sum.splits if_splits)

theorem empty_group_silent_drop_witness:
  "''a1'' \<in> sockets two_devices \<and> \<not> nullish update_unassigned
   \<and> printable (field update_unassigned ''receiverId'')
   \<and> printable (field update_unassigned ''senderId'')
   \<and> printable (field update_unassigned ''recipientId'')
   \<and> printable (field update_unassigned ''caseId'')
   \<and> printable (field update_unassigned ''assignedUserId'')
   \<and> rooms two_devices ''case:42'' = {}
   \<and> step two_devices (CaseUpdate ''a1'' update_unassigned)
       = Returned two_devices [(''case:42'', CaseUpdated status_closed)]
   \<and> (\<forall>c. received (rooms two_devices) [(''case:42'', CaseUpdated status_closed)] c = [])"
  using empty_group_silent_drop [of "''a1''" two_devices update_unassigned
      "CaseUpdate ''a1'' update_unassigned" 0 0]
  by (simp add: two_devices_sockets two_devices_rooms update_unassigned_def step_def
        case_update_def received_def printable_def)

text \<open>
  A \<^verbatim>\<open>chat:send\<close> to a receiver nobody is connected as, from a sender given by
  an object with a property \<^verbatim>\<open>toString\<close>: the message is emitted to the empty
  group, and the log line that follows throws.
\<close>

theorem log_line_throws_counterexample:
  "''a1'' \<in> sockets two_devices \<and> \<not> nullish chat_from_unprintable
   \<and> rooms two_devices ''user:nobody'' = {}
   \<and> step two_devices (ChatSend ''a1'' 1700000000000 1700000000001 chat_from_unprintable)
       = Thrown TypeError two_devices
           [(''user:nobody'',
             ChatReceive \<lparr>msg_id = ''msg-1700000000000'', senderId = unprintable,
                           senderName = JStr ''Ann'', message = JStr ''hi'',
                           timestamp = 1700000000001, read = False\<rparr>)]"
  by (simp add: step_def chat_send_def chat_from_unprintable_def unprintable_def
        two_devices_sockets two_devices_rooms decimal_example)

section \<open>Joining, authenticating and disconnecting\<close>

lemma newcomer_reachable: "run init [Connect ''c1''] c = Inr (newcomer, [])"
  by (simp add: step_def connect_def init_def newcomer_def received_def)

text \<open>
  Claim C5, as the code has it. The \<^verbatim>\<open>join:case\<close> handler computes the room
  name, joins the room and does nothing else: with a \<^verbatim>\<open>caseId\<close> that converts
  to a string, a live connection becomes a member of the resource group whether or not
  it has authenticated, and the table of authenticated connections is neither read nor
  changed.
\<close>

theorem join_case_needs_no_authentication:
  assumes "c \<in> sockets s" and "toStr caseId = Inr k"
  shows "\<exists>s'. step s (JoinCase c caseId) = Returned s' []
            \<and> c \<in> rooms s' (''case:'' @ k)
            \<and> connectedUsers s' = connectedUsers s
            \<and> sockets s' = sockets s"
  using assms by (simp add: step_def join_case_def join_def)

theorem join_case_needs_no_authentication_witness:
  "''c1'' \<in> sockets newcomer \<and> toStr (JStr ''42'') = Inr ''42''
   \<and> fmlookup (connectedUsers newcomer) ''c1'' = None
   \<and> (\<exists>s'. step newcomer (JoinCase ''c1'' (JStr ''42'')) = Returned s' []
           \<and> ''c1'' \<in> rooms s' ''case:42''
           \<and> connectedUsers s' = fmempty
           \<and> sockets s' = {''c1''})"
  using join_case_needs_no_authentication [of "''c1''" newcomer "JStr ''42''" "''42''"]
  by (simp add: newcomer_def)

text \<open>
  The state reached by a connection that connects and at once asks to join case 42: it
  is a member of the case's group and has no entry among the authenticated connections.
\<close>

theorem unauthenticated_member_counterexample:
  "run init [Connect ''c1'', JoinCase ''c1'' (JStr ''42'')] ''c1''
     = Inr (unauthenticated_viewer, [])
   \<and> ''c1'' \<in> rooms unauthenticated_viewer ''case:42''
   \<and> fmlookup (connectedUsers unauthenticated_viewer) ''c1'' = None"
  by (simp add: step_def connect_def join_case_def join_def init_def received_def
        unauthenticated_viewer_def newcomer_def)

text \<open>With a \<^verbatim>\<open>caseId\<close> that does not convert, the handler throws before it joins.\<close>

lemma join_case_unprintable:
  "c \<in> sockets s \<Longrightarrow> toStr caseId = Inl e \<Longrightarrow> step s (JoinCase c caseId) = Thrown e s []"
  by (simp add: step_def join_case_def)

lemma join_commute: "join (join rs c r1) c r2 = join (join rs c r2) c r1"
  by (auto simp add: join_def fun_eq_iff)

lemma join_idem: "join (join rs c r) c r = join rs c r"
  by (auto simp add: join_def fun_eq_iff)

text \<open>
  Claim C6, as the code has it. Authenticating under an identity that converts to a
  string raises no error, and authenticating again under the same identity changes
  nothing. Authenticating under \<open>i1\<close> and then under \<open>i2\<close> leaves the same table of
  authenticated connections as authenticating under \<open>i2\<close> alone, the entry of \<open>c\<close>
  being \<open>i2\<close>; the groups are those of authenticating under \<open>i2\<close> alone with \<open>c\<close>
  added to the identity group of \<open>i1\<close>, which the handler never leaves. So \<open>c\<close> is a
  member of both identity groups.
\<close>

theorem reauthenticate_keeps_old_group:
  assumes "c \<in> sockets s" and "toStr i1 = Inr u1" and "toStr i2 = Inr u2"
  shows "\<exists>s1 s12 s2.
           step s (Authenticate c i1) = Returned s1 []
           \<and> step s1 (Authenticate c i2) = Returned s12 []
           \<and> step s (Authenticate c i2) = Returned s2 []
           \<and> step s2 (Authenticate c i2) = Returned s2 []
           \<and> connectedUsers s12 = connectedUsers s2
           \<and> fmlookup (connectedUsers s12) c = Some i2
           \<and> sockets s12 = sockets s2
           \<and> rooms s12 = join (rooms s2) c (''user:'' @ u1)
           \<and> c \<in> rooms s12 (''user:'' @ u1)
           \<and> c \<in> rooms s12 (''user:'' @ u2)"
  using assms
  by (simp add: step_def authenticate_def join_commute join_idem) (simp add: join_def)

theorem reauthenticate_keeps_old_group_witness:
  "''c1'' \<in> sockets newcomer
   \<and> toStr (JStr ''alice'') = Inr ''alice'' \<and> toStr (JStr ''bob'') = Inr ''bob''
   \<and> (\<exists>s1. step newcomer (Authenticate ''c1'' (JStr ''alice'')) = Returned s1 []
           \<and> step s1 (Authenticate ''c1'' (JStr ''bob'')) = Returned alice_then_bob [])
   \<and> step newcomer (Authenticate ''c1'' (JStr ''bob'')) = Returned bob_only []
   \<and> step bob_only (Authenticate ''c1'' (JStr ''bob'')) = Returned bob_only []
   \<and> connectedUsers alice_then_bob = connectedUsers bob_only
   \<and> rooms alice_then_bob = join (rooms bob_only) ''c1'' ''user:alice''
   \<and> ''c1'' \<in> rooms alice_then_bob ''user:alice''
   \<and> ''c1'' \<in> rooms alice_then_bob ''user:bob''"
  using reauthenticate_keeps_old_group
          [of "''c1''" newcomer "JStr ''alice''" "''alice''" "JStr ''bob''" "''bob''"]
  by (simp add: step_def authenticate_def newcomer_def alice_then_bob_def bob_only_def
        join_idem) (simp add: join_def)

text \<open>
  A connection that authenticates as alice and then as bob is not in the state of one
  that authenticated as bob only: it is still sent what is addressed to alice.
\<close>

theorem reauthenticate_counterexample:
  "run init [Connect ''c1'', Authenticate ''c1'' (JStr ''alice''),
             Authenticate ''c1'' (JStr ''bob'')] ''c1''
     = Inr (alice_then_bob, [])
   \<and> run init [Connect ''c1'', Authenticate ''c1'' (JStr ''bob'')] ''c1'' = Inr (bob_only, [])
   \<and> alice_then_bob \<noteq> bob_only
   \<and> run init [Connect ''c1'', Authenticate ''c1'' (JStr ''alice''),
               Authenticate ''c1'' (JStr ''bob''),
               NotificationSend ''c1'' note_for_alice] ''c1''
       = Inr (alice_then_bob, [NotificationReceive (JStr ''for alice'')])
   \<and> run init [Connect ''c1'', Authenticate ''c1'' (JStr ''bob''),
               NotificationSend ''c1'' note_for_alice] ''c1''
       = Inr (bob_only, [])"
proof -
  have kept: "''c1'' \<in> rooms alice_then_bob ''user:alice''"
    by (simp add: alice_then_bob_def join_def)
  have absent: "''c1'' \<notin> rooms bob_only ''user:alice''"
    by (simp add: bob_only_def join_def)
  from kept absent have differ: "alice_then_bob \<noteq> bob_only"
    by metis
  have twice: "run init [Connect ''c1'', Authenticate ''c1'' (JStr ''alice''),
                         Authenticate ''c1'' (JStr ''bob'')] ''c1''
                 = Inr (alice_then_bob, [])"
    by (simp add: step_def connect_def authenticate_def init_def received_def
          alice_then_bob_def)
  have once: "run init [Connect ''c1'', Authenticate ''c1'' (JStr ''bob'')] ''c1''
                = Inr (bob_only, [])"
    by (simp add: step_def connect_def authenticate_def init_def received_def bob_only_def)
  have sent: "run init [Connect ''c1'', Authenticate ''c1'' (JStr ''alice''),
                        Authenticate ''c1'' (JStr ''bob''),
                        NotificationSend ''c1'' note_for_alice] ''c1''
                = Inr (alice_then_bob, [NotificationReceive (JStr ''for alice'')])"
    by (simp add: step_def connect_def authenticate_def init_def received_def
          notification_send_def note_for_alice_def join_def alice_then_bob_def)
  have unsent: "run init [Connect ''c1'', Authenticate ''c1'' (JStr ''bob''),
                          NotificationSend ''c1'' note_for_alice] ''c1''
                  = Inr (bob_only, [])"
    by (simp add: step_def connect_def authenticate_def init_def received_def
          notification_send_def note_for_alice_def join_def bob_only_def)
  from differ twice once sent unsent show ?thesis
    by simp
qed

text \<open>
  With an identity that does not convert, the entry of \<open>connectedUsers\<close> is set and
  the handler throws before it joins a room.
\<close>

lemma authenticate_unprintable:
  "c \<in> sockets s \<Longrightarrow> toStr i = Inl e \<Longrightarrow>
     step s (Authenticate c i)
       = Thrown e (s\<lparr>connectedUsers := fmupd c i (connectedUsers s)\<rparr>) []"
  by (simp add: step_def authenticate_def)

subsection \<open>The connection count of the health answer\<close>

lemma health_connect: "health_sockets (connect s c) = health_sockets s"
  by (simp add: health_sockets_def connect_def)

lemma health_authenticate:
  "health_sockets (state_of (authenticate s c u))
     = (if c |\<in>| fmdom (connectedUsers s) then health_sockets s else health_sockets s + 1)"
  by (simp add: health_sockets_def authenticate_def fcard_finsert_if Let_def
        split: sum.splits)

text \<open>An entry with a truthy user id is deleted when its connection disconnects.\<close>

lemma health_disconnect:
  assumes "fmlookup (connectedUsers s) c = Some u" and "truthy u"
  shows "health_sockets (state_of (disconnect s c)) + 1 = health_sockets s"
proof -
  from assms have dropped:
    "connectedUsers (state_of (disconnect s c)) = fmdrop c (connectedUsers s)"
    by (simp add: disconnect_def Let_def split: sum.splits)
  from assms have "c |\<in>| fmdom (connectedUsers s)"
    by (simp add: fmdomI)
  then have "fcard (fmdom (connectedUsers s) |-| {|c|}) + 1 = fcard (fmdom (connectedUsers s))"
    by (metis Suc_eq_plus1 fcard_Suc_fminus1)
  with dropped show ?thesis
    by (simp add: health_sockets_def)
qed

text \<open>
  Claim C10. The count in the health answer is the number of entries of
  \<open>connectedUsers\<close>, so a connection that never authenticated is not counted, and the
  count is meant to go down by one when an authenticated connection disconnects. The
  \<^verbatim>\<open>disconnect\<close> handler tests the stored user id for truthiness, though, so an
  entry with a falsy id is never deleted: after a connection authenticates with the empty
  string and disconnects, no connection is live and the count is still one.
\<close>

theorem falsy_identity_entry_survives_disconnect:
  "run init [Connect ''c1'', Authenticate ''c1'' (JStr '''')] ''c1'' = Inr (empty_login, [])
   \<and> health_sockets empty_login = 1
   \<and> run init [Connect ''c1'', Authenticate ''c1'' (JStr ''''), Disconnect ''c1''] ''c1''
     = Inr (empty_logout, [])
   \<and> sockets empty_logout = {}
   \<and> health_sockets empty_logout = 1"
  by (auto simp add: step_def connect_def authenticate_def disconnect_def init_def
        received_def health_sockets_def fcard_finsert_if empty_login_def empty_logout_def
        join_def fun_eq_iff)


section \<open>The response cache\<close>

text \<open>
  Claim C3. For a GET request the key is the request's \<^verbatim>\<open>originalUrl\<close>, path
  and query string as received. An entry stored at time \<open>T\<close> answers a request at
  time \<open>T'\<close> when \<open>T' - T\<close> is below 30000 milliseconds, without running the handlers
  and without touching the cache. From 30000 milliseconds on, and when there is no entry,
  the handlers run and what they pass to \<^verbatim>\<open>res.json\<close> replaces the entry. Entries
  under other keys are never touched, and a request that is not a GET is answered by the
  handlers and leaves the cache as it is.
\<close>

theorem cache_window:
  "(req_method req = ''GET'' \<and> cache (originalUrl req) = Some (d, T) \<and> int T' - int T < 30000
      \<longrightarrow> api_request routes cache T' t req = (FromCache d, cache))
   \<and> (req_method req = ''GET'' \<and> cache (originalUrl req) = Some (d, T) \<and> int T' - int T \<ge> 30000
      \<longrightarrow> api_request routes cache T' t req
          = (FromHandler (downstream routes req),
             case downstream routes req of
               Json st d' \<Rightarrow> cache(originalUrl req \<mapsto> (d', t))
             | Other \<Rightarrow> cache))
   \<and> (req_method req = ''GET'' \<and> cache (originalUrl req) = None
      \<longrightarrow> api_request routes cache T' t req
          = (FromHandler (downstream routes req),
             case downstream routes req of
               Json st d' \<Rightarrow> cache(originalUrl req \<mapsto> (d', t))
             | Other \<Rightarrow> cache))
   \<and> (k \<noteq> originalUrl req \<longrightarrow> snd (api_request routes cache T' t req) k = cache k)
   \<and> (req_method req \<noteq> ''GET''
      \<longrightarrow> api_request routes cache T' t req = (FromHandler (downstream routes req), cache))"
  by (auto simp add: api_request_def cacheMiddleware_def caching_json_def CACHE_TTL_def Let_def
        split: reply.splits option.splits)

theorem cache_window_witness:
  "req_method get_cases = ''GET''
   \<and> one_entry (originalUrl get_cases) = Some (cases_list, 1000)
   \<and> int 30000 - int 1000 < 30000
   \<and> api_request fresh_routes one_entry 30000 30002 get_cases = (FromCache cases_list, one_entry)
   \<and> api_request fresh_routes one_entry 30999 31001 get_cases = (FromCache cases_list, one_entry)
   \<and> int 31000 - int 1000 \<ge> 30000
   \<and> api_request fresh_routes one_entry 31000 31002 get_cases
       = (FromHandler (Json 200 (JStr ''recomputed'')),
          [''/api/cases?status=open'' \<mapsto> (JStr ''recomputed'', 31002)])
   \<and> api_request fresh_routes one_entry 32000 32002 get_cases
       = (FromHandler (Json 200 (JStr ''recomputed'')),
          [''/api/cases?status=open'' \<mapsto> (JStr ''recomputed'', 32002)])
   \<and> api_request fresh_routes Map.empty 31000 31002 get_cases
       = (FromHandler (Json 200 (JStr ''recomputed'')),
          [''/api/cases?status=open'' \<mapsto> (JStr ''recomputed'', 31002)])
   \<and> ''/api/cases'' \<noteq> originalUrl get_cases
   \<and> snd (api_request fresh_routes one_entry 31000 31002 get_cases) ''/api/cases'' = None
   \<and> req_method post_cases \<noteq> ''GET''
   \<and> api_request fresh_routes one_entry 30000 30002 post_cases
       = (FromHandler (Json 200 (JStr ''recomputed'')), one_entry)"
  using cache_window [of get_cases one_entry cases_list 1000 30000 fresh_routes 30002
                         "''/api/cases''"]
    cache_window [of get_cases one_entry cases_list 1000 30999 fresh_routes 31001
                     "''/api/cases''"]
    cache_window [of get_cases one_entry cases_list 1000 31000 fresh_routes 31002
                     "''/api/cases''"]
    cache_window [of get_cases one_entry cases_list 1000 32000 fresh_routes 32002
                     "''/api/cases''"]
    cache_window [of get_cases Map.empty cases_list 1000 31000 fresh_routes 31002
                     "''/api/cases''"]
    cache_window [of post_cases one_entry cases_list 1000 30000 fresh_routes 30002
                     "''/api/cases''"]
  by (simp add: get_cases_def post_cases_def one_entry_def fresh_routes_def downstream_def)

text \<open>
  Claim C4, as the code has it. Under \<^verbatim>\<open>/api\<close>, where the middleware is
  mounted, whatever the handling of a GET request passes to \<^verbatim>\<open>res.json\<close> on a
  miss is stored, with no regard to the status of the response, and answers later GET
  requests for the same URL inside the window; this includes the body of the 404 handler.
  A request that is not a GET, and a request outside \<^verbatim>\<open>/api\<close>, never changes
  the cache.
\<close>

theorem cache_stores_any_json:
  "(under_api (originalUrl req) \<and> req_method req = ''GET''
      \<and> cacheMiddleware cache now req = Miss key \<and> downstream routes req = Json st d
      \<longrightarrow> key = originalUrl req
          \<and> app_request routes elsewhere cache now t req
              = (FromHandler (Json st d), cache(key \<mapsto> (d, t)))
          \<and> (int now2 - int t < 30000
               \<longrightarrow> app_request routes2 elsewhere2 (cache(key \<mapsto> (d, t))) now2 t2 req
                   = (FromCache d, cache(key \<mapsto> (d, t)))))
   \<and> (req_method req \<noteq> ''GET'' \<or> \<not> under_api (originalUrl req)
      \<longrightarrow> snd (app_request routes elsewhere cache now t req) = cache)"
  by (auto simp add: app_request_def api_request_def cacheMiddleware_def caching_json_def
        CACHE_TTL_def Let_def split: reply.splits option.splits if_splits)

theorem cache_stores_any_json_witness:
  "under_api (originalUrl get_missing) \<and> req_method get_missing = ''GET''
   \<and> cacheMiddleware Map.empty 1000 get_missing = Miss ''/api/nothing''
   \<and> downstream no_routes get_missing = Json 404 not_found
   \<and> app_request no_routes plain_elsewhere Map.empty 1000 1001 get_missing
       = (FromHandler (Json 404 not_found), [''/api/nothing'' \<mapsto> (not_found, 1001)])
   \<and> app_request fresh_routes plain_elsewhere [''/api/nothing'' \<mapsto> (not_found, 1001)]
        2000 2001 get_missing
       = (FromCache not_found, [''/api/nothing'' \<mapsto> (not_found, 1001)])
   \<and> req_method post_cases \<noteq> ''GET''
   \<and> snd (app_request fresh_routes plain_elsewhere one_entry 2000 2001 post_cases) = one_entry
   \<and> \<not> under_api (originalUrl get_health)
   \<and> app_request fresh_routes plain_elsewhere one_entry 2000 2001 get_health
       = (FromHandler (Json 200 (JObj [(''status'', JStr ''ok'')])), one_entry)"
  using cache_stores_any_json [of get_missing Map.empty 1000 "''/api/nothing''" no_routes 404
                                  not_found plain_elsewhere 1001 2000 fresh_routes
                                  plain_elsewhere 2001]
    cache_stores_any_json [of post_cases one_entry 2000 "''/api/nothing''" fresh_routes 404
                              not_found plain_elsewhere 2001 2000 fresh_routes
                              plain_elsewhere 2001]
    cache_stores_any_json [of get_health one_entry 2000 "''/api/nothing''" fresh_routes 404
                              not_found plain_elsewhere 2001 2000 fresh_routes
                              plain_elsewhere 2001]
  by (simp add: get_missing_def post_cases_def get_health_def cacheMiddleware_def
        downstream_def no_routes_def under_api_def app_request_def plain_elsewhere_def)

text \<open>
  A GET for a URL no route matches: the 404 body is stored, and a second GET one second
  later is answered with that body from the cache, although a route would now match.
\<close>

theorem error_cached_counterexample:
  "api_request no_routes Map.empty 1000 1001 get_missing
     = (FromHandler (Json 404 not_found), [''/api/nothing'' \<mapsto> (not_found, 1001)])
   \<and> api_request fresh_routes [''/api/nothing'' \<mapsto> (not_found, 1001)] 2000 2001 get_missing
     = (FromCache not_found, [''/api/nothing'' \<mapsto> (not_found, 1001)])"
  by (simp add: api_request_def cacheMiddleware_def caching_json_def CACHE_TTL_def
        downstream_def no_routes_def get_missing_def)

end
